theory Spec2Isabelle
  imports Main
begin

unbundle bit_operations_syntax

section \<open>Errors\<close>

text \<open>
  Go's \<open>error\<close> values, as far as the program builds or inspects them. \<open>nil\<close> is
  \<open>None\<close> of \<open>error option\<close>. The two \<open>fmt.Errorf\<close> shapes of the program keep
  their arguments, so that what an error carries can be read off the value:
  \<open>Errorf msg e\<close> is \<open>fmt.Errorf("msg: %w", e)\<close>, \<open>ErrorfCmd c e s\<close> is
  \<open>fmt.Errorf("failed to run command %q on remote host: %w: stderr=%q", c, e, s)\<close> and
  \<open>ErrorfS msg e\<close> is \<open>fmt.Errorf("msg: %s", e)\<close>, which formats \<open>e\<close> without wrapping it.
\<close>

datatype errno = ENOENT | EACCES | ENOTDIR | EIO | EROFS

datatype error =
    PathError string string errno
  | EOF
  | ExitError nat
  | ExitMissingError
  | SSHError string
  | Canceled
  | StatusError string
  | Errorf string error
  | ErrorfCmd string error string
  | ErrorfS string error

text \<open>\<open>os.IsNotExist\<close> looks through a \<open>PathError\<close> only, never through \<open>fmt.Errorf\<close>.\<close>

fun os_IsNotExist :: "error option \<Rightarrow> bool" where
  "os_IsNotExist (Some (PathError opn p e)) = (e = ENOENT)"
| "os_IsNotExist _ = False"

text \<open>
  \<open>apierrors.IsNotFound\<close> asks for the reason of the API status error, unwrapping
  \<open>%w\<close> chains; it is false of \<open>nil\<close>.
\<close>

fun reason_not_found :: "error \<Rightarrow> bool" where
  "reason_not_found (StatusError r) = (r = ''NotFound'')"
| "reason_not_found (Errorf m e) = reason_not_found e"
| "reason_not_found (ErrorfCmd c e s) = reason_not_found e"
| "reason_not_found _ = False"

fun apierrors_IsNotFound :: "error option \<Rightarrow> bool" where
  "apierrors_IsNotFound None = False"
| "apierrors_IsNotFound (Some e) = reason_not_found e"

text \<open>The standard error captured by the program, when an error value carries it.\<close>

fun captured_stderr :: "error \<Rightarrow> string option" where
  "captured_stderr (ErrorfCmd c e s) = Some s"
| "captured_stderr (Errorf m e) = captured_stderr e"
| "captured_stderr _ = None"

text \<open>The innermost error of a \<open>%w\<close> chain (what \<open>errors.Unwrap\<close> reaches).\<close>

fun root_cause :: "error \<Rightarrow> error" where
  "root_cause (Errorf m e) = root_cause e"
| "root_cause (ErrorfCmd c e s) = root_cause e"
| "root_cause e = e"

section \<open>The world the program runs in\<close>

text \<open>
  A local path is unresolvable (a directory on the way is missing, unsearchable or not
  a directory: every system call on the path fails with that errno), or it resolves
  and names no file, or it names a regular file with its content. The \<open>errno option\<close>
  of the last two is the error that creating the file, respectively opening it for
  writing, runs into (an unwritable directory, a read-only file), if any.
  The filesystem is changed by this program only.
\<close>

datatype path_state =
    Unresolvable errno
  | Missing "errno option"
  | Regular string "errno option"

fun local_file_exists :: "path_state \<Rightarrow> bool" where
  "local_file_exists (Regular c oe) = True"
| "local_file_exists _ = False"

fun file_content :: "path_state \<Rightarrow> string option" where
  "file_content (Regular c oe) = Some c"
| "file_content _ = None"

text \<open>An open \<open>*os.File\<close>: its name, whether it was opened with \<open>O_APPEND\<close>, its offset.\<close>

record os_file =
  fname :: string
  fappend :: bool
  foffset :: nat

datatype signal = SIGINT | SIGKILL | SIGTERM

text \<open>
  The remote command of the streaming session: not started, running, running with a
  termination signal delivered, exited (as seen by \<open>session.Wait\<close>), or detached (its
  session was closed under it; the process itself may linger on the remote host).
\<close>

datatype cmd_state = NotStarted | Running | Terminating | Exited | Detached

text \<open>
  The remote host: the files that exist there, and the paths that \<open>rm\<close> cannot remove
  for a reason other than absence (permissions, a read-only filesystem).
\<close>

record remote_host =
  rfiles :: "string set"
  rm_denied :: "string set"

text \<open>
  The behaviour of the remote \<open>journalctl --follow\<close> process: the bytes it writes to
  standard output and to standard error until it stops, the result of \<open>session.Wait\<close>
  if it exits by itself (\<open>None\<close>: it follows the journal forever), and its result when
  a termination signal reaches it (\<open>None\<close>: it ignores the signal).
\<close>

record journal =
  jstdout :: string
  jstderr :: string
  jexit :: "error option option"
  jterm :: "error option option"

text \<open>
  How the \<open>select\<close> of \<open>stream\<close> is resolved: the command's exit is received first and
  the context stays as it is; the exit is received first and the context is cancelled
  before the final \<open>ctx.Err()\<close>; or the context is cancelled while the command runs.
\<close>

datatype race = ExitFirst | CancelAfterExit | CancelFirst

datatype event =
    LogInfo string
  | LogError error string
  | SessionOpened nat
  | SessionClosed nat
  | FileOpened string
  | FileClosed string
  | CommandRun nat string "error option"
  | CommandStarted nat string "string set"
  | StartFailed nat string error
  | SignalSent nat signal "error option"
  | WaitReturned nat "error option"
  | ClientDialed string int
  | ClientClosed

text \<open>A Cluster API Machine, as far as the reconciler reads it.\<close>

record machine_address =
  addr_type :: string
  addr_address :: string

record machine =
  m_namespace :: string
  m_name :: string
  m_addresses :: "machine_address list"

text \<open>
  What the environment decides, fixed for a run: the behaviour of the remote follower,
  how the \<open>select\<close> is resolved, and the results of \<open>session.Run\<close>'s transport,
  \<open>session.Start\<close>, \<open>session.Signal\<close>, \<open>File.Close\<close>, of \<open>session.Wait\<close> on a closed
  session, of the API server's \<open>Get\<close>, of \<open>ssh.ParsePrivateKey\<close>, \<open>ssh.Dial\<close> and
  \<open>Client.Close\<close>.
\<close>

record environment =
  journalctl :: journal
  wait_race :: race
  run_transport_err :: "error option"
  start_err :: "error option"
  signal_err :: "error option"
  file_close_err :: "error option"
  closed_wait_err :: "error option"
  api_get :: "string \<times> string \<Rightarrow> machine \<times> error option"
  parse_key_err :: "error option"
  dial_err :: "error option"
  client_close_err :: "error option"

text \<open>
  The state of the world. The results of \<open>client.NewSession\<close> and \<open>session.Close\<close>
  are read from lists, one result per call, an exhausted list meaning success.
  \<open>CommandStarted\<close> records the remote files that exist when the command starts.
\<close>

record world =
  env :: environment
  ctx_err :: "error option"
  fs :: "string \<Rightarrow> path_state"
  remote :: remote_host
  new_session_results :: "error option list"
  session_close_results :: "error option list"
  next_sid :: nat
  proc :: cmd_state
  proc_sid :: nat
  proc_cursor :: "string option"
  trace :: "event list"

text \<open>A call returns a value in a new world, or blocks forever in the world it reached.\<close>

datatype 'a result = Returned 'a world | Blocked world

fun world_of :: "'a result \<Rightarrow> world" where
  "world_of (Returned x w) = w"
| "world_of (Blocked w) = w"

fun returned :: "'a result \<Rightarrow> 'a option" where
  "returned (Returned x w) = Some x"
| "returned (Blocked w) = None"

definition emit :: "event \<Rightarrow> world \<Rightarrow> world" where
  "emit e w = w\<lparr>trace := trace w @ [e]\<rparr>"

definition log_info :: "string \<Rightarrow> world \<Rightarrow> world" where
  "log_info msg w = emit (LogInfo msg) w"

definition log_error :: "error \<Rightarrow> string \<Rightarrow> world \<Rightarrow> world" where
  "log_error e msg w = emit (LogError e msg) w"

text \<open>The events a call added to the trace.\<close>

definition new_events :: "world \<Rightarrow> world \<Rightarrow> event list" where
  "new_events w w' = drop (length (trace w)) (trace w')"

section \<open>The local filesystem\<close>

definition O_RDONLY :: int where "O_RDONLY = 0"
definition O_WRONLY :: int where "O_WRONLY = 1"
definition O_RDWR :: int where "O_RDWR = 2"
definition O_CREATE :: int where "O_CREATE = 64"
definition O_TRUNC :: int where "O_TRUNC = 512"
definition O_APPEND :: int where "O_APPEND = 1024"

definition os_Stat :: "string \<Rightarrow> world \<Rightarrow> error option" where
  "os_Stat name w =
     (case fs w name of
        Unresolvable e \<Rightarrow> Some (PathError ''stat'' name e)
      | Missing oe \<Rightarrow> Some (PathError ''stat'' name ENOENT)
      | Regular c oe \<Rightarrow> None)"

text \<open>
  \<open>os.OpenFile\<close> for the flags above: without \<open>O_CREATE\<close> a missing file is an error,
  \<open>O_TRUNC\<close> empties a file opened for writing, and the handle remembers \<open>O_APPEND\<close>.
\<close>

definition os_OpenFile :: "string \<Rightarrow> int \<Rightarrow> nat \<Rightarrow> world \<Rightarrow> (error + os_file) \<times> world" where
  "os_OpenFile name flag perm w =
     (let writing = (flag AND 3 \<noteq> 0);
          handle = \<lparr>fname = name, fappend = (flag AND O_APPEND \<noteq> 0), foffset = 0\<rparr>
      in case fs w name of
           Unresolvable e \<Rightarrow> (Inl (PathError ''open'' name e), w)
         | Missing oe \<Rightarrow>
             if flag AND O_CREATE = 0 then (Inl (PathError ''open'' name ENOENT), w)
             else (case oe of
                     Some e \<Rightarrow> (Inl (PathError ''open'' name e), w)
                   | None \<Rightarrow>
                       (Inr handle,
                        emit (FileOpened name) (w\<lparr>fs := (fs w)(name := Regular [] None)\<rparr>)))
         | Regular c oe \<Rightarrow>
             if writing \<and> oe \<noteq> None then (Inl (PathError ''open'' name (the oe)), w)
             else if writing \<and> flag AND O_TRUNC \<noteq> 0
             then (Inr handle, emit (FileOpened name) (w\<lparr>fs := (fs w)(name := Regular [] oe)\<rparr>))
             else (Inr handle, emit (FileOpened name) w))"

text \<open>
  A write through a handle: at the end of the file with \<open>O_APPEND\<close>, at the handle's
  offset (overwriting) without. Returns the advanced handle.
\<close>

definition file_Write :: "os_file \<Rightarrow> string \<Rightarrow> world \<Rightarrow> os_file \<times> world" where
  "file_Write f bytes w =
     (case fs w (fname f) of
        Regular c oe \<Rightarrow>
          (if fappend f
           then (f\<lparr>foffset := length c + length bytes\<rparr>,
                 w\<lparr>fs := (fs w)(fname f := Regular (c @ bytes) oe)\<rparr>)
           else (f\<lparr>foffset := foffset f + length bytes\<rparr>,
                 w\<lparr>fs := (fs w)(fname f :=
                        Regular (take (foffset f) c @ bytes @ drop (foffset f + length bytes) c) oe)\<rparr>))
      | _ \<Rightarrow> (f, w))"

definition file_Close :: "os_file \<Rightarrow> world \<Rightarrow> error option \<times> world" where
  "file_Close f w = (file_close_err (env w), emit (FileClosed (fname f)) w)"

section \<open>The remote host and the SSH session\<close>

definition strip_prefix :: "string \<Rightarrow> string \<Rightarrow> string option" where
  "strip_prefix p s = (if take (length p) s = p then Some (drop (length p) s) else None)"

text \<open>
  The remote shell, for the command shapes of this program: \<open>rm\<close> with or without
  \<open>--force\<close>, and the journal follower. The text after the fixed words is the path,
  taken literally.
\<close>

datatype remote_cmd = Rm bool string | JournalFollow string | Unsupported

definition parse_command :: "string \<Rightarrow> remote_cmd" where
  "parse_command s =
     (case strip_prefix ''rm --force '' s of
        Some p \<Rightarrow> Rm True p
      | None \<Rightarrow>
          (case strip_prefix ''rm '' s of
             Some p \<Rightarrow> Rm False p
           | None \<Rightarrow>
               (case strip_prefix ''sudo journalctl --follow --no-tail --cursor-file='' s of
                  Some p \<Rightarrow> JournalFollow p
                | None \<Rightarrow> Unsupported)))"

text \<open>
  \<open>rm\<close> on the remote host: exit status, standard error, new host. With \<open>--force\<close> a
  missing file is no error; a path that cannot be removed is one either way.
\<close>

definition remote_rm :: "bool \<Rightarrow> string \<Rightarrow> remote_host \<Rightarrow> error option \<times> string \<times> remote_host" where
  "remote_rm force p r =
     (if p \<in> rm_denied r then (Some (ExitError 1), ''rm: cannot remove '' @ p, r)
      else if p \<in> rfiles r then (None, [], r\<lparr>rfiles := rfiles r - {p}\<rparr>)
      else if force then (None, [], r)
      else (Some (ExitError 1), ''rm: cannot remove '' @ p @ '': No such file or directory'', r))"

definition remote_exec :: "string \<Rightarrow> remote_host \<Rightarrow> error option \<times> string \<times> remote_host" where
  "remote_exec command r =
     (case parse_command command of
        Rm force p \<Rightarrow> remote_rm force p r
      | _ \<Rightarrow> (Some (ExitError 127), ''command not found'', r))"

definition next_result :: "error option list \<Rightarrow> error option \<times> error option list" where
  "next_result rs = (case rs of [] \<Rightarrow> (None, []) | r # rest \<Rightarrow> (r, rest))"

definition client_NewSession :: "world \<Rightarrow> (error + nat) \<times> world" where
  "client_NewSession w =
     (let (r, rest) = next_result (new_session_results w);
          w1 = w\<lparr>new_session_results := rest\<rparr>
      in case r of
           Some e \<Rightarrow> (Inl e, w1)
         | None \<Rightarrow> (Inr (next_sid w), emit (SessionOpened (next_sid w)) (w1\<lparr>next_sid := Suc (next_sid w)\<rparr>)))"

text \<open>
  \<open>session.Run\<close> starts the command and waits for it; the program calls it with the
  cursor removal only. Returns the error, the bytes written to \<open>session.Stderr\<close> and
  the new world.
\<close>

definition session_Run :: "nat \<Rightarrow> string \<Rightarrow> world \<Rightarrow> error option \<times> string \<times> world" where
  "session_Run s command w =
     (case run_transport_err (env w) of
        Some e \<Rightarrow> (Some e, [], emit (CommandRun s command (Some e)) w)
      | None \<Rightarrow>
          (let (r, err_bytes, host) = remote_exec command (remote w)
           in (r, err_bytes, emit (CommandRun s command r) (w\<lparr>remote := host\<rparr>))))"

definition session_Start :: "nat \<Rightarrow> string \<Rightarrow> world \<Rightarrow> error option \<times> world" where
  "session_Start s command w =
     (case start_err (env w) of
        Some e \<Rightarrow> (Some e, emit (StartFailed s command e) w)
      | None \<Rightarrow>
          (None,
           emit (CommandStarted s command (rfiles (remote w)))
             (w\<lparr>proc := Running, proc_sid := s,
                proc_cursor := (case parse_command command of
                                  JournalFollow p \<Rightarrow> Some p | _ \<Rightarrow> None)\<rparr>)))"

definition session_Signal :: "nat \<Rightarrow> signal \<Rightarrow> world \<Rightarrow> error option \<times> world" where
  "session_Signal s sig w =
     (signal_err (env w),
      emit (SignalSent s sig (signal_err (env w)))
        (if signal_err (env w) = None \<and> proc w = Running \<and> proc_sid w = s
         then w\<lparr>proc := Terminating\<rparr> else w))"

definition session_Close :: "nat \<Rightarrow> world \<Rightarrow> error option \<times> world" where
  "session_Close s w =
     (let (r, rest) = next_result (session_close_results w);
          w1 = w\<lparr>session_close_results := rest\<rparr>;
          w2 = (if proc_sid w = s \<and> (proc w = Running \<or> proc w = Terminating)
                then w1\<lparr>proc := Detached\<rparr> else w1)
      in (r, emit (SessionClosed s) w2))"

text \<open>
  The command stops with Wait result \<open>r\<close>: what it wrote reaches \<open>session.Stdout\<close>
  (the local file) and, when it exits by itself or on the signal, journalctl leaves
  its cursor file behind.
\<close>

definition command_stops :: "nat \<Rightarrow> os_file \<Rightarrow> cmd_state \<Rightarrow> error option \<Rightarrow> world \<Rightarrow> world" where
  "command_stops s out st r w =
     (let (out', w1) = file_Write out (jstdout (journalctl (env w))) w;
          host = (case proc_cursor w of
                    Some p \<Rightarrow> (if st = Exited then (remote w)\<lparr>rfiles := insert p (rfiles (remote w))\<rparr>
                               else remote w)
                  | None \<Rightarrow> remote w)
      in emit (WaitReturned s r) (w1\<lparr>proc := st, remote := host\<rparr>))"

text \<open>
  \<open>session.Wait\<close>, with the bytes captured from standard error. It returns when the
  command has exited, or when the session has been closed; while the command runs in
  an open session it blocks.
\<close>

definition session_Wait :: "nat \<Rightarrow> os_file \<Rightarrow> world \<Rightarrow> (error option \<times> string) result" where
  "session_Wait s out w =
     (let j = journalctl (env w) in
      case proc w of
        Running \<Rightarrow>
          (case jexit j of
             Some r \<Rightarrow> Returned (r, jstderr j) (command_stops s out Exited r w)
           | None \<Rightarrow> Blocked (snd (file_Write out (jstdout j) w)))
      | Terminating \<Rightarrow>
          (case jterm j of
             Some r \<Rightarrow> Returned (r, jstderr j) (command_stops s out Exited r w)
           | None \<Rightarrow>
               (case jexit j of
                  Some r \<Rightarrow> Returned (r, jstderr j) (command_stops s out Exited r w)
                | None \<Rightarrow> Blocked (snd (file_Write out (jstdout j) w))))
      | Detached \<Rightarrow>
          Returned (closed_wait_err (env w), jstderr j) (command_stops s out Detached (closed_wait_err (env w)) w)
      | _ \<Rightarrow>
          Returned (Some (SSHError ''ssh: session not started''), [])
            (emit (WaitReturned s (Some (SSHError ''ssh: session not started''))) w))"

section \<open>internal/journald/remote.go\<close>

definition streamJournalAsRootCommand :: "string \<Rightarrow> string" where
  "streamJournalAsRootCommand cursorFilePath =
     ''sudo journalctl --follow --no-tail --cursor-file='' @ cursorFilePath"

definition removeCursorFileCommand :: "string \<Rightarrow> string" where
  "removeCursorFileCommand cursorFilePath = ''rm --force '' @ cursorFilePath"

definition resetCursorFile :: "string \<Rightarrow> world \<Rightarrow> error option \<times> world" where
  "resetCursorFile cursorFilePath w0 =
     (case client_NewSession w0 of
        (Inl createSessionErr, w1) \<Rightarrow>
          (Some (Errorf ''failed to create new SSH session'' createSessionErr), w1)
      | (Inr session, w1) \<Rightarrow>
          (let command = removeCursorFileCommand cursorFilePath;
               w2 = log_info ''running command on remote host'' w1;
               (resetCursorErr, sshErrWriter, w3) = session_Run session command w2
           in case resetCursorErr of
                Some e \<Rightarrow> (Some (ErrorfCmd command e sshErrWriter), w3)
              | None \<Rightarrow>
                  (let (closeSessionErr, w4) = session_Close session w3
                   in (None,
                       if closeSessionErr \<noteq> None \<and> closeSessionErr \<noteq> Some EOF
                       then log_error (the closeSessionErr) ''failed to close session'' w4
                       else w4))))"

text \<open>
  Lines 141 to 159 of \<open>stream\<close>: the goroutine's \<open>session.Wait\<close> raced against
  \<open>ctx.Done()\<close>. When the context is cancelled first the program signals the command,
  closes the session if the signal could not be sent, and then receives from \<open>errCh\<close>.
\<close>

definition select_wait :: "nat \<Rightarrow> os_file \<Rightarrow> world \<Rightarrow> (error option \<times> string) result" where
  "select_wait session outWriter w =
     (let ctx_done_branch = (\<lambda>w0.
            let w1 = w0\<lparr>ctx_err := (case ctx_err w0 of None \<Rightarrow> Some Canceled | Some c \<Rightarrow> Some c)\<rparr>;
                (signalErr, w2) = session_Signal session SIGTERM w1;
                w5 = (case signalErr of
                        None \<Rightarrow> w2
                      | Some se \<Rightarrow>
                          (let w3 = log_error se ''failed to send signal to SSH session'' w2;
                               (closeSessionErr, w4) = session_Close session w3
                           in case closeSessionErr of
                                None \<Rightarrow> w4
                              | Some ce \<Rightarrow> log_error ce ''failed to close SSHsession'' w4))
            in session_Wait session outWriter w5)
      in case wait_race (env w) of
           CancelFirst \<Rightarrow> ctx_done_branch w
         | ExitFirst \<Rightarrow>
             (if jexit (journalctl (env w)) \<noteq> None then session_Wait session outWriter w
              else if ctx_err w \<noteq> None then ctx_done_branch w
              else session_Wait session outWriter w)
         | CancelAfterExit \<Rightarrow>
             (if jexit (journalctl (env w)) \<noteq> None
              then (case session_Wait session outWriter w of
                      Returned x w1 \<Rightarrow> Returned x (w1\<lparr>ctx_err := (case ctx_err w1 of None \<Rightarrow> Some Canceled | Some c \<Rightarrow> Some c)\<rparr>)
                    | Blocked w1 \<Rightarrow> Blocked w1)
              else ctx_done_branch w))"

text \<open>
  Lines 161 to 175 of \<open>stream\<close>: both closes, their errors logged only, and the result
  decided by \<open>ctx.Err()\<close> and the error of \<open>session.Wait\<close>.
\<close>

definition stream_finish :: "nat \<Rightarrow> os_file \<Rightarrow> error option \<Rightarrow> world \<Rightarrow> error option result" where
  "stream_finish session outWriter waitErr w5 =
     (let (closeSessionErr, w6) = session_Close session w5;
          w7 = (if closeSessionErr \<noteq> None \<and> closeSessionErr \<noteq> Some EOF
                then log_error (the closeSessionErr) ''failed to close SSH session'' w6
                else w6);
          (closeOutWriterErr, w8) = file_Close outWriter w7;
          w9 = (case closeOutWriterErr of
                  Some e \<Rightarrow> log_error e ''failed to close local journal file'' w8
                | None \<Rightarrow> w8)
      in if ctx_err w9 = None \<and> waitErr \<noteq> None
         then Returned (Some (Errorf ''unexpected error running journalctl on remote host'' (the waitErr))) w9
         else Returned None w9)"

definition stream :: "string \<Rightarrow> string \<Rightarrow> world \<Rightarrow> error option result" where
  "stream cursorFilePath localJournalFilePath w0 =
     (case client_NewSession w0 of
        (Inl createSessionErr, w1) \<Rightarrow>
          Returned (Some (Errorf ''failed to create new SSH session'' createSessionErr)) w1
      | (Inr session, w1) \<Rightarrow>
          (case os_OpenFile localJournalFilePath (O_CREATE OR O_WRONLY OR O_APPEND) 420 w1 of
             (Inl openFileErr, w2) \<Rightarrow>
               Returned (Some (Errorf ''failed to open local journal file'' openFileErr)) w2
           | (Inr outWriter, w2) \<Rightarrow>
               (let command = streamJournalAsRootCommand cursorFilePath;
                    w3 = log_info ''running command on remote host'' w2
                in case session_Start session command w3 of
                     (Some sessionErr, w4) \<Rightarrow>
                       (let (closeOutWriterErr, w5) = file_Close outWriter w4;
                            w6 = (case closeOutWriterErr of
                                    Some e \<Rightarrow> log_error e ''failed to close local journal file'' w5
                                  | None \<Rightarrow> w5)
                        in Returned (Some (ErrorfCmd command sessionErr [])) w6)
                   | (None, w4) \<Rightarrow>
                       (case select_wait session outWriter w4 of
                          Blocked w5 \<Rightarrow> Blocked w5
                        | Returned (waitErr, sshErrWriter) w5 \<Rightarrow>
                            stream_finish session outWriter waitErr w5))))"

definition StreamFromRemote :: "string \<Rightarrow> string \<Rightarrow> world \<Rightarrow> error option result" where
  "StreamFromRemote cursorFilePath localJournalFilePath w0 =
     (let err = os_Stat localJournalFilePath w0;
          (resetCursorErr, w2) =
            (if os_IsNotExist err
             then resetCursorFile cursorFilePath
                    (log_info ''local journal file does not exist, removing remote journald cursor file'' w0)
             else (None, w0))
      in case resetCursorErr of
           Some e \<Rightarrow> Returned (Some (Errorf ''failed to reset journald cursor file'' e)) w2
         | None \<Rightarrow>
             (case stream cursorFilePath localJournalFilePath w2 of
                Blocked w3 \<Rightarrow> Blocked w3
              | Returned (Some streamErr) w3 \<Rightarrow>
                  Returned (Some (Errorf ''failed to stream journal from remote'' streamErr)) w3
              | Returned None w3 \<Rightarrow> Returned None w3))"

section \<open>internal/ssh/client.go\<close>

text \<open>
  \<open>NewClient\<close> parses the private key and dials the machine; both errors are formatted
  with \<open>%s\<close>. The dialled address is kept as host and port.
\<close>

definition ssh_NewClient :: "string \<Rightarrow> int \<Rightarrow> string \<Rightarrow> string \<Rightarrow> world \<Rightarrow> (error + unit) \<times> world" where
  "ssh_NewClient machineIP port user privateKey w =
     (case parse_key_err (env w) of
        Some err \<Rightarrow> (Inl (ErrorfS ''error parsing private key'' err), w)
      | None \<Rightarrow>
          (case dial_err (env w) of
             Some err \<Rightarrow> (Inl (ErrorfS ''error dialing SSH server'' err), w)
           | None \<Rightarrow> (Inr (), emit (ClientDialed machineIP port) w)))"

definition client_Close :: "world \<Rightarrow> error option \<times> world" where
  "client_Close w = (client_close_err (env w), emit ClientClosed w)"

section \<open>The controller: MachineReconciler.Reconcile\<close>

record reconciler =
  SSHPrivateKey :: string
  SSHUser :: string
  SSHPort :: int
  LocalJournalDirectory :: string
  RemoteJournaldCursorFilePath :: string

record ctrl_result =
  Requeue :: bool
  RequeueAfter :: int

text \<open>\<open>ctrl.Result{}\<close>: no explicit requeue.\<close>

definition empty_result :: ctrl_result where
  "empty_result = \<lparr>Requeue = False, RequeueAfter = 0\<rparr>"

definition MachineInternalIP :: string where
  "MachineInternalIP = ''InternalIP''"

text \<open>
  The loop over \<open>machine.Status.Addresses\<close>: the address of the first entry of type
  \<open>MachineInternalIP\<close>, the empty string when there is none.
\<close>

fun find_machine_ip :: "machine_address list \<Rightarrow> string" where
  "find_machine_ip [] = []"
| "find_machine_ip (addr # rest) =
     (if addr_type addr = MachineInternalIP then addr_address addr else find_machine_ip rest)"

text \<open>\<open>path.Join\<close> of a directory and a file name; the cleaning of the result is left out.\<close>

definition path_Join :: "string \<Rightarrow> string \<Rightarrow> string" where
  "path_Join dir name = (if dir = [] then name else dir @ ''/'' @ name)"

definition client_Get :: "string \<times> string \<Rightarrow> world \<Rightarrow> machine \<times> error option" where
  "client_Get key w = api_get (env w) key"

text \<open>The \<open>return\<close> statement by which \<open>Reconcile\<close> leaves, in the order of the source.\<close>

datatype return_site =
    AtCancelled
  | AtGetFailed
  | AtNotFound
  | AtNoAddress
  | AtNewClientFailed
  | AtStreamFailed
  | AtEnd

text \<open>
  \<open>Reconcile\<close>, with the request's namespace and name. The deferred
  \<open>sshClient.Close()\<close> runs on both returns that follow the client's creation.
\<close>

definition Reconcile ::
    "reconciler \<Rightarrow> string \<times> string \<Rightarrow> world \<Rightarrow> (return_site \<times> ctrl_result \<times> error option) result" where
  "Reconcile r req w0 =
     (case ctx_err w0 of
        Some cause \<Rightarrow> Returned (AtCancelled, empty_result, Some cause) w0
      | None \<Rightarrow>
          (let (machine, err) = client_Get req w0 in
           if err \<noteq> None
           then Returned (AtGetFailed, empty_result,
                          Some (Errorf (''failed to get machine '' @ fst req @ ''/'' @ snd req) (the err))) w0
           else if apierrors_IsNotFound err
           then Returned (AtNotFound, empty_result, None) w0
           else
             (let machineIP = find_machine_ip (m_addresses machine) in
              if machineIP = []
              then Returned (AtNoAddress, empty_result, None) w0
              else
                (let w1 = log_info ''Machine IP found'' w0 in
                 case ssh_NewClient machineIP (SSHPort r) (SSHUser r) (SSHPrivateKey r) w1 of
                   (Inl err, w2) \<Rightarrow>
                     Returned (AtNewClientFailed, empty_result,
                               Some (Errorf ''failed to create SSH client'' err)) w2
                 | (Inr sshClient, w2) \<Rightarrow>
                     (let localJournalFilePath =
                            path_Join (LocalJournalDirectory r)
                              (m_namespace machine @ ''-'' @ m_name machine @ ''.log'')
                      in case StreamFromRemote (RemoteJournaldCursorFilePath r) localJournalFilePath w2 of
                           Blocked w3 \<Rightarrow> Blocked w3
                         | Returned err w3 \<Rightarrow>
                             (let (closeErr, w4) = client_Close w3;
                                  w5 = (case closeErr of
                                          Some e \<Rightarrow> log_error e ''failed to close SSH client'' w4
                                        | None \<Rightarrow> w4)
                              in case err of
                                   Some e \<Rightarrow>
                                     Returned (AtStreamFailed, empty_result,
                                               Some (Errorf ''failed to import journal from remote'' e)) w5
                                 | None \<Rightarrow> Returned (AtEnd, empty_result, None) w5))))))"

section \<open>internal/ssh/context.go\<close>

text \<open>
  \<open>DialContext\<close> runs the SSH handshake in a goroutine and meets it at an unbuffered
  channel; both sides \<open>select\<close> between the channel and \<open>ctx.Done()\<close>. A run is fixed by
  the result of the TCP dial, the result of \<open>ssh.NewClientConn\<close> (\<open>None\<close>: the handshake
  never completes), the moment of the cancellation, and its cause.
  The moments are: never; after the TCP dial and before \<open>ssh.NewClientConn\<close> returns;
  after the client has been set up and before its hand-over through the channel;
  after the hand-over. The last two are not reached by a handshake that never completes.
\<close>

datatype cancel_point = NeverCancelled | DuringHandshake | AfterHandshake | AfterHandoff

record dial_env =
  tcp_dial_err :: "error option"
  handshake :: "error option option"
  cancel_at :: cancel_point
  cancel_cause :: error

datatype ssh_client = SSHClient string

text \<open>
  Whether \<open>ctx.Done()\<close> is ready before the channel operation can take place. The send
  and the receive happen together or not at all: the channel is unbuffered.
\<close>

definition done_before_handoff :: "dial_env \<Rightarrow> bool" where
  "done_before_handoff e =
     (cancel_at e = DuringHandshake \<or> (cancel_at e = AfterHandshake \<and> handshake e \<noteq> None))"

text \<open>
  How the goroutine ends: stuck in the handshake, with its result sent, with the
  client it had set up closed, or with nothing to close.
\<close>

datatype goroutine_end =
    StuckInHandshake
  | Sent "ssh_client option \<times> error option"
  | ClosedClient ssh_client
  | NothingToClose

definition dial_goroutine :: "string \<Rightarrow> dial_env \<Rightarrow> goroutine_end" where
  "dial_goroutine addr e =
     (case handshake e of
        None \<Rightarrow> StuckInHandshake
      | Some err \<Rightarrow>
          (let client = (if err = None then Some (SSHClient addr) else None)
           in if \<not> done_before_handoff e then Sent (client, err)
              else (case client of
                      Some c \<Rightarrow> ClosedClient c
                    | None \<Rightarrow> NothingToClose)))"

text \<open>The value \<open>DialContext\<close> returns; \<open>None\<close> when it never returns.\<close>

definition DialContext :: "string \<Rightarrow> string \<Rightarrow> dial_env \<Rightarrow> (ssh_client option \<times> error option) option" where
  "DialContext network addr e =
     (case tcp_dial_err e of
        Some err \<Rightarrow> Some (None, Some err)
      | None \<Rightarrow>
          (case dial_goroutine addr e of
             Sent res \<Rightarrow> Some res
           | _ \<Rightarrow>
               if done_before_handoff e then Some (None, Some (cancel_cause e))
               else None))"

section \<open>Vocabulary of the properties\<close>

text \<open>Events that neither run nor start a remote command.\<close>

fun quiet :: "event \<Rightarrow> bool" where
  "quiet (CommandRun s c r) = False"
| "quiet (CommandStarted s c fl) = False"
| "quiet _ = True"

text \<open>
  Events of a run of \<open>stream\<close> entered with the remote files \<open>fl\<close>: no \<open>session.Run\<close>,
  and a command that starts finds exactly \<open>fl\<close>.
\<close>

fun stream_event :: "string set \<Rightarrow> event \<Rightarrow> bool" where
  "stream_event fl (CommandRun s c r) = False"
| "stream_event fl (CommandStarted s c fl') = (fl' = fl)"
| "stream_event fl _ = True"

text \<open>
  No command is started before the forced removal of the cursor file \<open>p\<close> has been
  run with success.
\<close>

fun reset_precedes_start :: "string \<Rightarrow> event list \<Rightarrow> bool" where
  "reset_precedes_start p [] = True"
| "reset_precedes_start p (CommandStarted s c fl # es) = False"
| "reset_precedes_start p (CommandRun s c r # es) =
     (if c = removeCursorFileCommand p \<and> r = None then True else reset_precedes_start p es)"
| "reset_precedes_start p (e # es) = reset_precedes_start p es"

text \<open>Every command that starts finds the remote file \<open>p\<close> absent.\<close>

fun absent_at_start :: "string \<Rightarrow> event list \<Rightarrow> bool" where
  "absent_at_start p [] = True"
| "absent_at_start p (CommandStarted s c fl # es) = (p \<notin> fl \<and> absent_at_start p es)"
| "absent_at_start p (e # es) = absent_at_start p es"

fun is_start :: "event \<Rightarrow> bool" where
  "is_start (CommandStarted s c fl) = True"
| "is_start _ = False"

text \<open>
  \<open>precedes a b es\<close>: event \<open>a\<close> occurs in \<open>es\<close>, event \<open>b\<close> occurs after its first
  occurrence and not before it.
\<close>

fun precedes :: "event \<Rightarrow> event \<Rightarrow> event list \<Rightarrow> bool" where
  "precedes a b [] = False"
| "precedes a b (e # es) =
     (if e = a then b \<in> set es else if e = b then False else precedes a b es)"

text \<open>The sessions opened in a trace and never closed in it.\<close>

fun opened_sessions :: "event list \<Rightarrow> nat list" where
  "opened_sessions [] = []"
| "opened_sessions (SessionOpened s # es) = s # opened_sessions es"
| "opened_sessions (e # es) = opened_sessions es"

definition leaked_sessions :: "event list \<Rightarrow> nat list" where
  "leaked_sessions es = filter (\<lambda>s. SessionClosed s \<notin> set es) (opened_sessions es)"

section \<open>Concrete worlds\<close>

text \<open>
  A host that still holds a cursor file, a journal follower that has two entries to
  deliver and stops on a termination signal, and a world in which every call succeeds
  and no local file exists yet.
\<close>

definition host_with_cursor :: remote_host where
  "host_with_cursor = \<lparr>rfiles = {''/cur''}, rm_denied = {}\<rparr>"

definition follower :: journal where
  "follower = \<lparr>jstdout = ''AB'', jstderr = [], jexit = None, jterm = Some (Some (ExitError 143))\<rparr>"

definition no_machine :: machine where
  "no_machine = \<lparr>m_namespace = [], m_name = [], m_addresses = []\<rparr>"

definition calm_env :: environment where
  "calm_env = \<lparr>journalctl = follower, wait_race = CancelFirst, run_transport_err = None,
     start_err = None, signal_err = None, file_close_err = None,
     closed_wait_err = Some ExitMissingError,
     api_get = (\<lambda>key. (no_machine, Some (StatusError ''NotFound''))),
     parse_key_err = None, dial_err = None, client_close_err = None\<rparr>"

definition calm :: world where
  "calm = \<lparr>env = calm_env, ctx_err = None, fs = (\<lambda>p. Missing None), remote = host_with_cursor,
     new_session_results = [], session_close_results = [], next_sid = 0, proc = NotStarted,
     proc_sid = 0, proc_cursor = None, trace = []\<rparr>"

text \<open>The same world with a local journal file left by an earlier attempt.\<close>

definition resumed :: world where
  "resumed = calm\<lparr>fs := (\<lambda>p. if p = ''/log'' then Regular ''old'' None else Missing None)\<rparr>"

text \<open>
  A reconciler, a machine that has no internal IP address yet and the world in which
  the API server returns it; a context cancelled after the SSH handshake has completed
  but before its result has been handed over, and one cancelled after the hand-over.
\<close>

definition operator :: reconciler where
  "operator = \<lparr>SSHPrivateKey = ''key'', SSHUser = ''core'', SSHPort = 22,
     LocalJournalDirectory = ''/var/log/mm'', RemoteJournaldCursorFilePath = ''/cur''\<rparr>"

definition booting :: machine where
  "booting = \<lparr>m_namespace = ''default'', m_name = ''node-1'',
     m_addresses = [\<lparr>addr_type = ''Hostname'', addr_address = ''node-1''\<rparr>]\<rparr>"

definition calm_booting :: world where
  "calm_booting = calm\<lparr>env := calm_env\<lparr>api_get := (\<lambda>key. (booting, None))\<rparr>\<rparr>"

definition late_cancel :: dial_env where
  "late_cancel = \<lparr>tcp_dial_err = None, handshake = Some None, cancel_at = AfterHandshake,
     cancel_cause = Canceled\<rparr>"

definition cancel_after_return :: dial_env where
  "cancel_after_return = \<lparr>tcp_dial_err = None, handshake = Some None, cancel_at = AfterHandoff,
     cancel_cause = Canceled\<rparr>"

section \<open>The reconciler\<close>

lemma find_machine_ip_none:
  "\<forall>a \<in> set addrs. addr_type a \<noteq> MachineInternalIP \<Longrightarrow> find_machine_ip addrs = []"
  by (induction addrs) simp_all

text \<open>
  C8. In \<open>Reconcile\<close> the branch that treats a not-found Machine as a benign no-op is
  unreachable: whenever the Get returns an error, not-found included, \<open>Reconcile\<close>
  returns that error wrapped as a failure, and no run leaves through the return
  statement of the not-found check.
\<close>

theorem Reconcile_not_found_branch_unreachable:
  "ctx_err w = None \<Longrightarrow>
     (\<forall>e. snd (client_Get req w) = Some e \<longrightarrow>
        Reconcile r req w =
          Returned (AtGetFailed, empty_result,
                    Some (Errorf (''failed to get machine '' @ fst req @ ''/'' @ snd req) e)) w) \<and>
     (\<forall>x w'. Reconcile r req w = Returned x w' \<longrightarrow> fst x \<noteq> AtNotFound)"
  by (auto simp: Reconcile_def Let_def
      split: option.splits prod.splits sum.splits result.splits if_splits)

theorem Reconcile_not_found_branch_unreachable_witness:
  "ctx_err calm = None \<and>
   snd (client_Get (''default'', ''node-1'') calm) = Some (StatusError ''NotFound'') \<and>
   apierrors_IsNotFound (Some (StatusError ''NotFound'')) \<and>
   Reconcile operator (''default'', ''node-1'') calm =
     Returned (AtGetFailed, empty_result,
               Some (Errorf ''failed to get machine default/node-1'' (StatusError ''NotFound''))) calm"
proof -
  have a: "ctx_err calm = None" by (simp add: calm_def)
  have b: "snd (client_Get (''default'', ''node-1'') calm) = Some (StatusError ''NotFound'')"
    by (simp add: client_Get_def calm_def calm_env_def)
  from Reconcile_not_found_branch_unreachable [OF a, of "(''default'', ''node-1'')" operator] b
  show ?thesis using a by simp
qed

text \<open>
  C9. For a Machine whose status has no address of type \<open>MachineInternalIP\<close>,
  \<open>Reconcile\<close> returns success with the empty result (no explicit requeue) and leaves
  the world as it was: no SSH connection, no file, no remote command, no log entry.
\<close>

theorem Reconcile_without_internal_ip:
  "ctx_err w = None \<Longrightarrow> client_Get req w = (m, None) \<Longrightarrow>
   \<forall>a \<in> set (m_addresses m). addr_type a \<noteq> MachineInternalIP \<Longrightarrow>
   Reconcile r req w = Returned (AtNoAddress, empty_result, None) w"
  by (simp add: Reconcile_def find_machine_ip_none)

theorem Reconcile_without_internal_ip_witness:
  "ctx_err calm_booting = None \<and>
   client_Get (''default'', ''node-1'') calm_booting = (booting, None) \<and>
   map addr_type (m_addresses booting) = [''Hostname''] \<and>
   Reconcile operator (''default'', ''node-1'') calm_booting =
     Returned (AtNoAddress, \<lparr>Requeue = False, RequeueAfter = 0\<rparr>, None) calm_booting"
proof -
  have a: "ctx_err calm_booting = None" by (simp add: calm_booting_def calm_def)
  have b: "client_Get (''default'', ''node-1'') calm_booting = (booting, None)"
    by (simp add: client_Get_def calm_booting_def)
  have c: "\<forall>a \<in> set (m_addresses booting). addr_type a \<noteq> MachineInternalIP"
    by (simp add: booting_def MachineInternalIP_def)
  have d: "map addr_type (m_addresses booting) = [''Hostname'']"
    by (simp add: booting_def)
  from Reconcile_without_internal_ip [OF a b c, of operator] a b d
  show ?thesis by (simp add: empty_result_def)
qed

section \<open>DialContext and cancellation\<close>

text \<open>
  C7, as stated, fails: with the handshake completed and the client set up before the
  context is cancelled, but the result not yet received, \<open>DialContext\<close> returns the
  cancellation cause and the goroutine closes the established client.
\<close>

theorem DialContext_established_then_cancelled:
  "tcp_dial_err late_cancel = None \<and> handshake late_cancel = Some None \<and>
   cancel_at late_cancel = AfterHandshake \<and>
   DialContext ''tcp'' ''10.0.0.7:22'' late_cancel = Some (None, Some Canceled) \<and>
   DialContext ''tcp'' ''10.0.0.7:22'' late_cancel \<noteq> Some (Some (SSHClient ''10.0.0.7:22''), None) \<and>
   dial_goroutine ''10.0.0.7:22'' late_cancel = ClosedClient (SSHClient ''10.0.0.7:22'')"
  by (simp add: late_cancel_def DialContext_def dial_goroutine_def done_before_handoff_def)

text \<open>
  C7, amended. After a successful TCP dial: if the context is cancelled before the
  handshake result has been handed over (during the handshake, or after it and before
  the hand-over), \<open>DialContext\<close> returns the cancellation cause as its error, and a
  client that the handshake set up is closed by the goroutine. If the hand-over comes
  first, \<open>DialContext\<close> returns the handshake's client and error as they are, whether
  or not the context is cancelled afterwards.
\<close>

theorem DialContext_cancellation:
  "tcp_dial_err e = None \<Longrightarrow>
     (done_before_handoff e \<longrightarrow>
        DialContext n a e = Some (None, Some (cancel_cause e)) \<and>
        (handshake e = Some None \<longrightarrow> dial_goroutine a e = ClosedClient (SSHClient a))) \<and>
     (\<not> done_before_handoff e \<longrightarrow>
        (\<forall>r. handshake e = Some r \<longrightarrow>
           DialContext n a e = Some (if r = None then Some (SSHClient a) else None, r) \<and>
           dial_goroutine a e = Sent (if r = None then Some (SSHClient a) else None, r)))"
  by (auto simp: DialContext_def dial_goroutine_def Let_def split: option.splits)

theorem DialContext_cancellation_witness:
  "tcp_dial_err late_cancel = None \<and> done_before_handoff late_cancel \<and>
   DialContext ''tcp'' ''10.0.0.7:22'' late_cancel = Some (None, Some Canceled) \<and>
   tcp_dial_err cancel_after_return = None \<and> \<not> done_before_handoff cancel_after_return \<and>
   handshake cancel_after_return = Some None \<and>
   DialContext ''tcp'' ''10.0.0.7:22'' cancel_after_return =
     Some (Some (SSHClient ''10.0.0.7:22''), None)"
proof -
  have a: "tcp_dial_err late_cancel = None" "done_before_handoff late_cancel"
    by (simp_all add: late_cancel_def done_before_handoff_def)
  have b: "tcp_dial_err cancel_after_return = None" "\<not> done_before_handoff cancel_after_return"
    "handshake cancel_after_return = Some None"
    by (simp_all add: cancel_after_return_def done_before_handoff_def)
  from DialContext_cancellation [OF a(1), of "''tcp''" "''10.0.0.7:22''"] a
    DialContext_cancellation [OF b(1), of "''tcp''" "''10.0.0.7:22''"] b
  show ?thesis by (simp add: late_cancel_def)
qed

end
